theory Spec2Isabelle
  imports Complex_Main "HOL-Library.Multiset"
begin

section \<open>Data model (types.ts)\<close>

text \<open>
  A TypeScript \<open>number\<close> is modelled as an exact rational: sums and products are the
  mathematical ones, and \<open>NaN\<close>, infinities and rounding are outside the model. What is
  stated below about a sum or a product follows the code's own order of operations (one
  product, one running total from left to right) and uses no law of exact arithmetic. A field
  declared optional (\<open>Contact?: string\<close>) is an \<open>option\<close>. Several interfaces share
  field names; a field is always written with its interface as qualifier
  (\<open>Site.SiteID\<close>, \<open>DailyLog.SiteID\<close>).
\<close>

type_synonym number = rat

datatype Status = Online | Offline

record Site =
  SiteID :: string
  SiteName :: string
  Location :: string
  OwnerName :: string
  OwnerContact :: string
  Budget :: number
  TotalArea :: string
  Status :: Status
  AmountReceived :: number
  AgreementFileID :: "string option"
  SitePlanFileID :: "string option"
  DriveFolderID :: "string option"

record Worker =
  WorkerID :: string
  WorkerName :: string
  Contact :: "string option"
  DefaultDailyWage :: number

record Material =
  MaterialID :: string
  MaterialName :: string
  Unit :: string
  DefaultValue :: number

record DailyLog =
  LogID :: string
  SiteID :: string
  Date :: string
  LogEntry :: string

record SiteWorkerLog =
  LogID :: string
  SiteID :: string
  Date :: string
  WorkerID :: string
  WorkerName :: string
  SalaryPaid :: number
  PaidStatus :: bool

record SiteMaterialLog =
  LogID :: string
  SiteID :: string
  Date :: string
  MaterialID :: string
  MaterialName :: string
  Unit :: string
  QuantityUsed :: number
  DefaultValue :: number
  TotalCost :: number

record GalleryImage =
  ImageID :: string
  SiteID :: string
  DateUploaded :: string
  ImageFileID :: string
  ImageUrl :: string
  Description :: string

text \<open>\<open>interface TodayWorker extends SiteWorkerLog\<close> and
  \<open>interface OverallMaterialLog extends SiteMaterialLog\<close> are record extensions.\<close>

record TodayWorker = SiteWorkerLog +
  SiteName :: string
  DefaultDailyWage :: number

record OverallMaterialLog = SiteMaterialLog +
  SiteName :: string

record Expenses =
  totalExpenses :: number
  workerExpense :: number
  materialExpense :: number

record SiteDetailsData =
  site :: Site
  logs :: "DailyLog list"
  workerLogs :: "SiteWorkerLog list"
  materialLogs :: "SiteMaterialLog list"
  gallery :: "GalleryImage list"
  expenses :: Expenses

record DashboardData =
  onlineSites :: nat
  offlineSites :: nat
  todayWorkers :: nat
  todayMaterials :: nat
  todayExpense :: number
  monthExpense :: number

text \<open>The argument types of the creating operations: \<open>Omit<Site, 'SiteID' | 'Status' |
  'AmountReceived'>\<close>, \<open>Omit<Worker, 'WorkerID'>\<close> and so on.\<close>

record SiteData =
  SiteName :: string
  Location :: string
  OwnerName :: string
  OwnerContact :: string
  Budget :: number
  TotalArea :: string
  AgreementFileID :: "string option"
  SitePlanFileID :: "string option"
  DriveFolderID :: "string option"

record WorkerData =
  WorkerName :: string
  Contact :: "string option"
  DefaultDailyWage :: number

record MaterialData =
  MaterialName :: string
  Unit :: string
  DefaultValue :: number

record DailyLogData =
  SiteID :: string
  Date :: string
  LogEntry :: string

record DailyWorkerData =
  SiteID :: string
  Date :: string
  WorkerID :: "string option"
  WorkerName :: string
  newWorker :: "WorkerData option"

record DailyMaterialData =
  SiteID :: string
  Date :: string
  MaterialID :: string
  MaterialName :: string
  Unit :: string
  QuantityUsed :: number
  DefaultValue :: number

record SalaryUpdate =
  logId :: string
  amount :: number
  status :: bool

record FileData =
  name :: string

record SuccessResult =
  success :: bool

section \<open>The record store (the module-level arrays of services/api.ts)\<close>

record Store =
  sites :: "Site list"
  workers :: "Worker list"
  materials :: "Material list"
  dailyLogs :: "DailyLog list"
  siteWorkerLogs :: "SiteWorkerLog list"
  siteMaterialLogs :: "SiteMaterialLog list"
  galleryImages :: "GalleryImage list"

text \<open>\<open>throw new Error(msg)\<close>: the spec's \<open>NotFound\<close> is the error with message
  \<open>Site not found\<close> or \<open>Worker log not found\<close>, its \<open>MissingWorkerReference\<close> the one
  with message \<open>Worker ID is missing\<close>. An operation returns its outcome together with
  the store as the call leaves it, also when it throws. A call is modelled as running
  from start to end with no other call in between; the simulated latency
  (\<open>apiDelay\<close>) is left out.\<close>

datatype error = Error string

type_synonym 'a outcome = "(error + 'a) \<times> Store"

section \<open>Environment: dates, sorting, truthiness\<close>

text \<open>
  \<open>new Date(str)\<close> is a built-in whose result for an arbitrary string is left to the
  engine, so the parser is a parameter of every operation that parses a date: it gives
  \<open>None\<close> for an invalid date (whose \<open>getTime()\<close>, \<open>getMonth()\<close> and
  \<open>getFullYear()\<close> are \<open>NaN\<close>) and otherwise the three readings the code takes.
  The current instant is a parameter too: \<open>getTodayDateString()\<close> and the month
  and year of \<open>new Date()\<close>.
\<close>

record JsDate =
  getTime :: int
  getMonth :: nat
  getFullYear :: int

type_synonym date_parser = "string \<Rightarrow> JsDate option"

record Now =
  todayDateString :: string
  nowMonth :: nat
  nowFullYear :: int

text \<open>The comparator \<open>(a, b) => new Date(b.Date).getTime() - new Date(a.Date).getTime()\<close>
  on the two date strings; a \<open>NaN\<close> result counts as \<open>+0\<close> in a sort.\<close>

definition byDateDesc :: "date_parser \<Rightarrow> string \<Rightarrow> string \<Rightarrow> int" where
  "byDateDesc parse a b =
     (case parse b of
        None \<Rightarrow> 0
      | Some db \<Rightarrow> (case parse a of None \<Rightarrow> 0 | Some da \<Rightarrow> getTime db - getTime da))"

text \<open>\<open>Array.prototype.sort\<close> is stable; for a consistent comparator its result is
  the one this insertion sort computes. With invalid dates the comparator is not
  consistent and the engine may order differently; the results below use the sorted
  array only as a rearrangement of its input.\<close>

fun insertBy :: "('a \<Rightarrow> 'a \<Rightarrow> int) \<Rightarrow> 'a \<Rightarrow> 'a list \<Rightarrow> 'a list" where
  "insertBy cmp x [] = [x]"
| "insertBy cmp x (y # ys) = (if cmp x y \<le> 0 then x # y # ys else y # insertBy cmp x ys)"

definition js_sort :: "('a \<Rightarrow> 'a \<Rightarrow> int) \<Rightarrow> 'a list \<Rightarrow> 'a list" where
  "js_sort cmp xs = foldr (insertBy cmp) xs []"

text \<open>\<open>v || d\<close> on a possibly undefined string or number: the empty string, \<open>0\<close> and
  \<open>undefined\<close> are falsy.\<close>

definition or_string :: "string option \<Rightarrow> string \<Rightarrow> string" where
  "or_string v d = (case v of None \<Rightarrow> d | Some x \<Rightarrow> if x = [] then d else x)"

definition or_number :: "number option \<Rightarrow> number \<Rightarrow> number" where
  "or_number v d = (case v of None \<Rightarrow> d | Some x \<Rightarrow> if x = 0 then d else x)"

section \<open>Queries\<close>

definition getSiteDetails :: "date_parser \<Rightarrow> string \<Rightarrow> Store \<Rightarrow> SiteDetailsData outcome" where
  "getSiteDetails parse siteId s =
     (case find (\<lambda>x. Site.SiteID x = siteId) (sites s) of
        None \<Rightarrow> (Inl (Error ''Site not found''), s)
      | Some found \<Rightarrow>
          (let lgs = js_sort (\<lambda>a b. byDateDesc parse (DailyLog.Date a) (DailyLog.Date b))
                       (filter (\<lambda>l. DailyLog.SiteID l = siteId) (dailyLogs s));
               siteWorkers = js_sort (\<lambda>a b. byDateDesc parse (SiteWorkerLog.Date a) (SiteWorkerLog.Date b))
                       (filter (\<lambda>l. SiteWorkerLog.SiteID l = siteId) (siteWorkerLogs s));
               siteMaterials = js_sort (\<lambda>a b. byDateDesc parse (SiteMaterialLog.Date a) (SiteMaterialLog.Date b))
                       (filter (\<lambda>l. SiteMaterialLog.SiteID l = siteId) (siteMaterialLogs s));
               gal = js_sort (\<lambda>a b. byDateDesc parse (DateUploaded a) (DateUploaded b))
                       (filter (\<lambda>g. GalleryImage.SiteID g = siteId) (galleryImages s));
               wExpense = foldl (\<lambda>acc l. acc + SalaryPaid l) 0 siteWorkers;
               mExpense = foldl (\<lambda>acc l. acc + TotalCost l) 0 siteMaterials
           in (Inr \<lparr>site = found, logs = lgs, workerLogs = siteWorkers,
                     materialLogs = siteMaterials, gallery = gal,
                     expenses = \<lparr>totalExpenses = wExpense + mExpense,
                                  workerExpense = wExpense,
                                  materialExpense = mExpense\<rparr>\<rparr>, s)))"

definition enrichWorkerLog :: "Store \<Rightarrow> SiteWorkerLog \<Rightarrow> TodayWorker" where
  "enrichWorkerLog s l =
     (let st = find (\<lambda>x. Site.SiteID x = SiteWorkerLog.SiteID l) (sites s);
          wk = find (\<lambda>w. Worker.WorkerID w = SiteWorkerLog.WorkerID l) (workers s)
      in SiteWorkerLog.extend l
           (TodayWorker.fields
              (or_string (map_option Site.SiteName st) ''Unknown Site'')
              (or_number (map_option Worker.DefaultDailyWage wk) 0)))"

definition getTodayWorkers :: "string \<Rightarrow> Store \<Rightarrow> TodayWorker list" where
  "getTodayWorkers today s =
     (let onlineSiteIds = map Site.SiteID (filter (\<lambda>x. Site.Status x = Online) (sites s))
      in map (enrichWorkerLog s)
           (filter (\<lambda>l. SiteWorkerLog.Date l = today \<and> SiteWorkerLog.SiteID l \<in> set onlineSiteIds)
              (siteWorkerLogs s)))"

definition enrichMaterialLog :: "Store \<Rightarrow> SiteMaterialLog \<Rightarrow> OverallMaterialLog" where
  "enrichMaterialLog s l =
     (let st = find (\<lambda>x. Site.SiteID x = SiteMaterialLog.SiteID l) (sites s)
      in SiteMaterialLog.extend l
           (OverallMaterialLog.fields (or_string (map_option Site.SiteName st) ''Unknown Site'')))"

definition getOverallMaterialsLog :: "date_parser \<Rightarrow> Store \<Rightarrow> OverallMaterialLog list" where
  "getOverallMaterialsLog parse s =
     map (enrichMaterialLog s)
       (js_sort (\<lambda>a b. byDateDesc parse (SiteMaterialLog.Date a) (SiteMaterialLog.Date b))
          (siteMaterialLogs s))"

text \<open>\<open>logDate.getMonth() === currentMonth && logDate.getFullYear() === currentYear\<close>.\<close>

definition inCurrentMonth :: "Now \<Rightarrow> JsDate option \<Rightarrow> bool" where
  "inCurrentMonth now d =
     (case d of None \<Rightarrow> False
      | Some x \<Rightarrow> getMonth x = nowMonth now \<and> getFullYear x = nowFullYear now)"

text \<open>One pass of a \<open>forEach\<close> body over the two running totals
  \<open>(todayExpense, monthExpense)\<close>.\<close>

definition addExpense :: "date_parser \<Rightarrow> Now \<Rightarrow> string \<Rightarrow> number \<Rightarrow> number \<times> number \<Rightarrow> number \<times> number" where
  "addExpense parse now dateStr v acc =
     (let logDate = parse dateStr;
          expense = or_number (Some v) 0;
          t = (if dateStr = todayDateString now then fst acc + expense else fst acc);
          m = (if inCurrentMonth now logDate then snd acc + expense else snd acc)
      in (t, m))"

definition getProfileDashboardData :: "date_parser \<Rightarrow> Now \<Rightarrow> Store \<Rightarrow> DashboardData" where
  "getProfileDashboardData parse now s =
     (let todayStr = todayDateString now;
          nOnline = length (filter (\<lambda>x. Site.Status x = Online) (sites s));
          nOffline = length (sites s) - nOnline;
          nWorkers = length (filter (\<lambda>l. SiteWorkerLog.Date l = todayStr) (siteWorkerLogs s));
          nMaterials = length (filter (\<lambda>l. SiteMaterialLog.Date l = todayStr) (siteMaterialLogs s));
          acc1 = fold (\<lambda>l. addExpense parse now (SiteWorkerLog.Date l) (SalaryPaid l))
                   (siteWorkerLogs s) (0, 0);
          acc2 = fold (\<lambda>l. addExpense parse now (SiteMaterialLog.Date l) (TotalCost l))
                   (siteMaterialLogs s) acc1
      in \<lparr>onlineSites = nOnline, offlineSites = nOffline, todayWorkers = nWorkers,
          todayMaterials = nMaterials, todayExpense = fst acc2, monthExpense = snd acc2\<rparr>)"

section \<open>Mutations\<close>

text \<open>\<open>generateUUID()\<close> draws from \<open>crypto.randomUUID()\<close>; each draw a call makes is an
  argument of the model (\<open>u\<close>, \<open>uWorker\<close>, \<open>uLog\<close>, \<open>uFile\<close>, \<open>uImage\<close>).\<close>

definition addNewSite :: "string \<Rightarrow> SiteData \<Rightarrow> Store \<Rightarrow> Site outcome" where
  "addNewSite u d s =
     (let newSite = \<lparr>Site.SiteID = u, Site.SiteName = SiteData.SiteName d,
                      Site.Location = SiteData.Location d,
                      Site.OwnerName = SiteData.OwnerName d,
                      Site.OwnerContact = SiteData.OwnerContact d,
                      Site.Budget = SiteData.Budget d,
                      Site.TotalArea = SiteData.TotalArea d,
                      Site.Status = Online, Site.AmountReceived = 0,
                      Site.AgreementFileID = SiteData.AgreementFileID d,
                      Site.SitePlanFileID = SiteData.SitePlanFileID d,
                      Site.DriveFolderID = SiteData.DriveFolderID d\<rparr>
      in (Inr newSite, s\<lparr>sites := sites s @ [newSite]\<rparr>))"

text \<open>An object found by \<open>Array.prototype.find\<close> is the first match, and an assignment
  to one of its fields changes that element of the array in place.\<close>

fun update_first :: "('a \<Rightarrow> bool) \<Rightarrow> ('a \<Rightarrow> 'a) \<Rightarrow> 'a list \<Rightarrow> 'a list" where
  "update_first P f [] = []"
| "update_first P f (x # xs) = (if P x then f x # xs else x # update_first P f xs)"

definition updateSiteStatus :: "string \<Rightarrow> Status \<Rightarrow> Store \<Rightarrow> SuccessResult outcome" where
  "updateSiteStatus siteId st s =
     (case find (\<lambda>x. Site.SiteID x = siteId) (sites s) of
        Some found \<Rightarrow>
          (Inr \<lparr>success = True\<rparr>,
           s\<lparr>sites := update_first (\<lambda>x. Site.SiteID x = siteId)
                          (\<lambda>x. x\<lparr>Site.Status := st\<rparr>) (sites s)\<rparr>)
      | None \<Rightarrow> (Inl (Error ''Site not found''), s))"

definition addNewWorker :: "string \<Rightarrow> WorkerData \<Rightarrow> Store \<Rightarrow> Worker outcome" where
  "addNewWorker u d s =
     (let w = \<lparr>Worker.WorkerID = u, Worker.WorkerName = WorkerData.WorkerName d,
                Worker.Contact = WorkerData.Contact d,
                Worker.DefaultDailyWage = WorkerData.DefaultDailyWage d\<rparr>
      in (Inr w, s\<lparr>workers := workers s @ [w]\<rparr>))"

definition addNewMaterial :: "string \<Rightarrow> MaterialData \<Rightarrow> Store \<Rightarrow> Material outcome" where
  "addNewMaterial u d s =
     (let m = \<lparr>Material.MaterialID = u, Material.MaterialName = MaterialData.MaterialName d,
                Material.Unit = MaterialData.Unit d,
                Material.DefaultValue = MaterialData.DefaultValue d\<rparr>
      in (Inr m, s\<lparr>materials := materials s @ [m]\<rparr>))"

definition addDailyLog :: "string \<Rightarrow> DailyLogData \<Rightarrow> Store \<Rightarrow> DailyLog outcome" where
  "addDailyLog u d s =
     (let newLog = \<lparr>DailyLog.LogID = u, DailyLog.SiteID = DailyLogData.SiteID d,
                     DailyLog.Date = DailyLogData.Date d,
                     DailyLog.LogEntry = DailyLogData.LogEntry d\<rparr>
      in (Inr newLog, s\<lparr>dailyLogs := dailyLogs s @ [newLog]\<rparr>))"

text \<open>\<open>if (logData.newWorker)\<close> holds for every non-null payload; \<open>if (!workerId)\<close>
  holds for \<open>null\<close> and for the empty string. A throw after the registration of the new
  worker leaves that worker in the store.\<close>

definition addDailyWorker ::
  "string \<Rightarrow> string \<Rightarrow> DailyWorkerData \<Rightarrow> Store \<Rightarrow> (SiteWorkerLog \<times> Worker option) outcome" where
  "addDailyWorker uWorker uLog d s =
     (case (case newWorker d of
              None \<Rightarrow> (Inr (DailyWorkerData.WorkerID d, None), s)
            | Some nw \<Rightarrow>
                (case addNewWorker uWorker nw s of
                   (Inl e, s') \<Rightarrow> (Inl e, s')
                 | (Inr w, s') \<Rightarrow> (Inr (Some (Worker.WorkerID w), Some w), s'))) of
        (Inl e, s1) \<Rightarrow> (Inl e, s1)
      | (Inr (workerId, newWorkerObj), s1) \<Rightarrow>
          (case workerId of
             None \<Rightarrow> (Inl (Error ''Worker ID is missing''), s1)
           | Some wid \<Rightarrow>
               if wid = [] then (Inl (Error ''Worker ID is missing''), s1)
               else
                 (let workerLog = \<lparr>SiteWorkerLog.LogID = uLog,
                                    SiteWorkerLog.SiteID = DailyWorkerData.SiteID d,
                                    SiteWorkerLog.Date = DailyWorkerData.Date d,
                                    SiteWorkerLog.WorkerID = wid,
                                    SiteWorkerLog.WorkerName = DailyWorkerData.WorkerName d,
                                    SalaryPaid = 0, PaidStatus = False\<rparr>
                  in (Inr (workerLog, newWorkerObj),
                      s1\<lparr>siteWorkerLogs := siteWorkerLogs s1 @ [workerLog]\<rparr>))))"

definition addDailyMaterial :: "string \<Rightarrow> DailyMaterialData \<Rightarrow> Store \<Rightarrow> SiteMaterialLog outcome" where
  "addDailyMaterial u d s =
     (let totalCost = DailyMaterialData.QuantityUsed d * DailyMaterialData.DefaultValue d;
          newLog = \<lparr>SiteMaterialLog.LogID = u,
                     SiteMaterialLog.SiteID = DailyMaterialData.SiteID d,
                     SiteMaterialLog.Date = DailyMaterialData.Date d,
                     SiteMaterialLog.MaterialID = DailyMaterialData.MaterialID d,
                     SiteMaterialLog.MaterialName = DailyMaterialData.MaterialName d,
                     SiteMaterialLog.Unit = DailyMaterialData.Unit d,
                     SiteMaterialLog.QuantityUsed = DailyMaterialData.QuantityUsed d,
                     SiteMaterialLog.DefaultValue = DailyMaterialData.DefaultValue d,
                     TotalCost = totalCost\<rparr>
      in (Inr newLog, s\<lparr>siteMaterialLogs := siteMaterialLogs s @ [newLog]\<rparr>))"

definition updateWorkerSalary :: "SalaryUpdate \<Rightarrow> Store \<Rightarrow> SuccessResult outcome" where
  "updateWorkerSalary upd s =
     (case find (\<lambda>l. SiteWorkerLog.LogID l = logId upd) (siteWorkerLogs s) of
        Some found \<Rightarrow>
          (Inr \<lparr>success = True\<rparr>,
           s\<lparr>siteWorkerLogs := update_first (\<lambda>l. SiteWorkerLog.LogID l = logId upd)
                (\<lambda>l. l\<lparr>SalaryPaid := amount upd, PaidStatus := status upd\<rparr>)
                (siteWorkerLogs s)\<rparr>)
      | None \<Rightarrow> (Inl (Error ''Worker log not found''), s))"

definition uploadFile ::
  "string \<Rightarrow> string \<Rightarrow> string \<Rightarrow> FileData \<Rightarrow> string \<Rightarrow> string \<Rightarrow> string \<Rightarrow> Store
     \<Rightarrow> SuccessResult outcome" where
  "uploadFile uFile uImage today fileData siteId fileType description s =
     (case find (\<lambda>x. Site.SiteID x = siteId) (sites s) of
        None \<Rightarrow> (Inl (Error ''Site not found''), s)
      | Some found \<Rightarrow>
          (let fileId = ''file-'' @ uFile;
               imageUrl = ''https://picsum.photos/seed/'' @ fileId @ ''/400/400''
           in if fileType = ''agreement'' then
                (Inr \<lparr>success = True\<rparr>,
                 s\<lparr>sites := update_first (\<lambda>x. Site.SiteID x = siteId)
                      (\<lambda>x. x\<lparr>Site.AgreementFileID := Some fileId\<rparr>) (sites s)\<rparr>)
              else if fileType = ''plan'' then
                (Inr \<lparr>success = True\<rparr>,
                 s\<lparr>sites := update_first (\<lambda>x. Site.SiteID x = siteId)
                      (\<lambda>x. x\<lparr>Site.SitePlanFileID := Some fileId\<rparr>) (sites s)\<rparr>)
              else if fileType = ''gallery'' then
                (Inr \<lparr>success = True\<rparr>,
                 s\<lparr>galleryImages := galleryImages s @
                      [\<lparr>ImageID = uImage, GalleryImage.SiteID = siteId,
                        DateUploaded = today, ImageFileID = fileId,
                        ImageUrl = imageUrl, Description = description\<rparr>]\<rparr>)
              else (Inr \<lparr>success = True\<rparr>, s)))"

section \<open>Sequences of mutations\<close>

text \<open>The mutating operations the module exports, each with the UUID draws and the date
  string it reads from its environment; the queries leave the store as it is.\<close>

datatype op =
    AddNewSite string SiteData
  | UpdateSiteStatus string Status
  | AddNewWorker string WorkerData
  | AddNewMaterial string MaterialData
  | AddDailyLog string DailyLogData
  | AddDailyWorker string string DailyWorkerData
  | AddDailyMaterial string DailyMaterialData
  | UpdateWorkerSalary SalaryUpdate
  | UploadFile string string string FileData string string string

fun apply_op :: "op \<Rightarrow> Store \<Rightarrow> Store" where
  "apply_op (AddNewSite u d) s = snd (addNewSite u d s)"
| "apply_op (UpdateSiteStatus i st) s = snd (updateSiteStatus i st s)"
| "apply_op (AddNewWorker u d) s = snd (addNewWorker u d s)"
| "apply_op (AddNewMaterial u d) s = snd (addNewMaterial u d s)"
| "apply_op (AddDailyLog u d) s = snd (addDailyLog u d s)"
| "apply_op (AddDailyWorker uw ul d) s = snd (addDailyWorker uw ul d s)"
| "apply_op (AddDailyMaterial u d) s = snd (addDailyMaterial u d s)"
| "apply_op (UpdateWorkerSalary upd) s = snd (updateWorkerSalary upd s)"
| "apply_op (UploadFile uf ui today fd i ft ds) s = snd (uploadFile uf ui today fd i ft ds s)"

definition run :: "op list \<Rightarrow> Store \<Rightarrow> Store" where
  "run ops s = fold apply_op ops s"

section \<open>The mock database the module starts with\<close>

text \<open>\<open>today0\<close> is \<open>getTodayDateString()\<close> at the time the module is loaded.\<close>

definition initialStore :: "string \<Rightarrow> Store" where
  "initialStore today0 =
     \<lparr>sites =
        [\<lparr>Site.SiteID = ''s-1'', Site.SiteName = ''Greenwood Villa'',
          Site.Location = ''Koramangala, Bangalore'', Site.OwnerName = ''Mr. Sharma'',
          Site.OwnerContact = ''9876543210'', Site.Budget = 5000000,
          Site.TotalArea = ''2400 sqft'', Site.Status = Online,
          Site.AmountReceived = 2000000, Site.AgreementFileID = None,
          Site.SitePlanFileID = None, Site.DriveFolderID = None\<rparr>,
         \<lparr>Site.SiteID = ''s-2'', Site.SiteName = ''Prestige Apartments'',
          Site.Location = ''Whitefield, Bangalore'', Site.OwnerName = ''Ms. Gupta'',
          Site.OwnerContact = ''8765432109'', Site.Budget = 12000000,
          Site.TotalArea = ''10000 sqft'', Site.Status = Online,
          Site.AmountReceived = 5000000, Site.AgreementFileID = None,
          Site.SitePlanFileID = None, Site.DriveFolderID = None\<rparr>,
         \<lparr>Site.SiteID = ''s-3'', Site.SiteName = ''Commercial Complex'',
          Site.Location = ''Indiranagar, Bangalore'', Site.OwnerName = ''BuildCorp Inc.'',
          Site.OwnerContact = ''7654321098'', Site.Budget = 25000000,
          Site.TotalArea = ''15000 sqft'', Site.Status = Offline,
          Site.AmountReceived = 10000000, Site.AgreementFileID = None,
          Site.SitePlanFileID = None, Site.DriveFolderID = None\<rparr>],
      workers =
        [\<lparr>Worker.WorkerID = ''w-1'', Worker.WorkerName = ''Ramesh Kumar'',
          Worker.Contact = None, Worker.DefaultDailyWage = 800\<rparr>,
         \<lparr>Worker.WorkerID = ''w-2'', Worker.WorkerName = ''Suresh Singh'',
          Worker.Contact = Some ''9988776655'', Worker.DefaultDailyWage = 950\<rparr>,
         \<lparr>Worker.WorkerID = ''w-3'', Worker.WorkerName = ''Vijay Prasad'',
          Worker.Contact = None, Worker.DefaultDailyWage = 750\<rparr>],
      materials =
        [\<lparr>Material.MaterialID = ''m-1'', Material.MaterialName = ''Cement'',
          Material.Unit = ''bag'', Material.DefaultValue = 450\<rparr>,
         \<lparr>Material.MaterialID = ''m-2'', Material.MaterialName = ''Steel Rod (12mm)'',
          Material.Unit = ''kg'', Material.DefaultValue = 85\<rparr>,
         \<lparr>Material.MaterialID = ''m-3'', Material.MaterialName = ''Bricks'',
          Material.Unit = ''nos'', Material.DefaultValue = 12\<rparr>],
      dailyLogs =
        [\<lparr>DailyLog.LogID = ''dl-1'', DailyLog.SiteID = ''s-1'',
          DailyLog.Date = ''2023-10-26'',
          DailyLog.LogEntry = ''Foundation work started. Excavation complete.''\<rparr>],
      siteWorkerLogs =
        [\<lparr>SiteWorkerLog.LogID = ''swl-1'', SiteWorkerLog.SiteID = ''s-1'',
          SiteWorkerLog.Date = today0, SiteWorkerLog.WorkerID = ''w-1'',
          SiteWorkerLog.WorkerName = ''Ramesh Kumar'', SalaryPaid = 800, PaidStatus = True\<rparr>,
         \<lparr>SiteWorkerLog.LogID = ''swl-2'', SiteWorkerLog.SiteID = ''s-2'',
          SiteWorkerLog.Date = today0, SiteWorkerLog.WorkerID = ''w-2'',
          SiteWorkerLog.WorkerName = ''Suresh Singh'', SalaryPaid = 0, PaidStatus = False\<rparr>],
      siteMaterialLogs =
        [\<lparr>SiteMaterialLog.LogID = ''sml-1'', SiteMaterialLog.SiteID = ''s-1'',
          SiteMaterialLog.Date = today0, SiteMaterialLog.MaterialID = ''m-1'',
          SiteMaterialLog.MaterialName = ''Cement'', SiteMaterialLog.Unit = ''bag'',
          SiteMaterialLog.QuantityUsed = 50, SiteMaterialLog.DefaultValue = 450,
          TotalCost = 22500\<rparr>],
      galleryImages = []\<rparr>"

text \<open>A date parser for the examples: the readings of four date strings in an environment
  whose local time is UTC; every other string is an invalid date.\<close>

definition exampleParse :: date_parser where
  "exampleParse str =
     (if str = ''2023-10-26'' then Some \<lparr>getTime = 1698278400000, getMonth = 9, getFullYear = 2023\<rparr>
      else if str = ''2023-11-02'' then Some \<lparr>getTime = 1698883200000, getMonth = 10, getFullYear = 2023\<rparr>
      else if str = ''2023-11-01'' then Some \<lparr>getTime = 1698796800000, getMonth = 10, getFullYear = 2023\<rparr>
      else if str = ''2022-11-02'' then Some \<lparr>getTime = 1667347200000, getMonth = 10, getFullYear = 2022\<rparr>
      else None)"

section \<open>A scenario store\<close>

text \<open>The scenario of the spec's testable properties, run on the mock database: create
  site A, log 10 units of a material at unit value 100 on it, log two workers on it and
  pay the first 500; the second stays unpaid.\<close>

definition scenarioOps :: "op list" where
  "scenarioOps =
     [AddNewSite ''site-A''
        \<lparr>SiteData.SiteName = ''Site A'', SiteData.Location = ''Hebbal'',
         SiteData.OwnerName = ''Owner'', SiteData.OwnerContact = ''1'',
         SiteData.Budget = 5000000, SiteData.TotalArea = ''1200 sqft'',
         SiteData.AgreementFileID = None, SiteData.SitePlanFileID = None,
         SiteData.DriveFolderID = None\<rparr>,
      AddDailyMaterial ''log-m''
        \<lparr>DailyMaterialData.SiteID = ''site-A'', DailyMaterialData.Date = ''2023-11-02'',
         DailyMaterialData.MaterialID = ''m-3'', DailyMaterialData.MaterialName = ''Bricks'',
         DailyMaterialData.Unit = ''nos'', DailyMaterialData.QuantityUsed = 10,
         DailyMaterialData.DefaultValue = 100\<rparr>,
      AddDailyWorker ''unused'' ''log-w1''
        \<lparr>DailyWorkerData.SiteID = ''site-A'', DailyWorkerData.Date = ''2023-11-02'',
         DailyWorkerData.WorkerID = Some ''w-1'', DailyWorkerData.WorkerName = ''Ramesh Kumar'',
         newWorker = None\<rparr>,
      AddDailyWorker ''unused'' ''log-w2''
        \<lparr>DailyWorkerData.SiteID = ''site-A'', DailyWorkerData.Date = ''2023-10-26'',
         DailyWorkerData.WorkerID = Some ''w-3'', DailyWorkerData.WorkerName = ''Vijay Prasad'',
         newWorker = None\<rparr>,
      UpdateWorkerSalary \<lparr>logId = ''log-w1'', amount = 500, status = True\<rparr>]"

definition scenarioStore :: Store where
  "scenarioStore = run scenarioOps (initialStore ''2023-11-02'')"

section \<open>A store with a material log of an unknown site\<close>

text \<open>\<open>addDailyMaterial\<close> does not look the site up, so a log entry for a site ID that
  no site carries can be created.\<close>

definition orphanEntry :: DailyMaterialData where
  "orphanEntry =
     \<lparr>DailyMaterialData.SiteID = ''s-404'', DailyMaterialData.Date = ''2023-10-26'',
      DailyMaterialData.MaterialID = ''m-2'', DailyMaterialData.MaterialName = ''Steel Rod (12mm)'',
      DailyMaterialData.Unit = ''kg'', DailyMaterialData.QuantityUsed = 4,
      DailyMaterialData.DefaultValue = 85\<rparr>"

definition orphanStore :: Store where
  "orphanStore = snd (addDailyMaterial ''log-x'' orphanEntry (initialStore ''2023-11-02''))"

definition orphanLog :: SiteMaterialLog where
  "orphanLog =
     \<lparr>SiteMaterialLog.LogID = ''log-x'', SiteMaterialLog.SiteID = ''s-404'',
      SiteMaterialLog.Date = ''2023-10-26'', SiteMaterialLog.MaterialID = ''m-2'',
      SiteMaterialLog.MaterialName = ''Steel Rod (12mm)'', SiteMaterialLog.Unit = ''kg'',
      SiteMaterialLog.QuantityUsed = 4, SiteMaterialLog.DefaultValue = 85, TotalCost = 340\<rparr>"

section \<open>Stores for the views of today's workers\<close>

text \<open>The mock database after site \<open>s-2\<close> went Offline, and the mock database with a
  master worker list in which worker \<open>w-1\<close> has a new name and a new default wage.\<close>

definition offlineStore :: Store where
  "offlineStore = run [UpdateSiteStatus ''s-2'' Offline] (initialStore ''2023-11-02'')"

definition raisedWorkers :: "Worker list" where
  "raisedWorkers =
     [\<lparr>Worker.WorkerID = ''w-1'', Worker.WorkerName = ''R. Kumar'',
       Worker.Contact = None, Worker.DefaultDailyWage = 900\<rparr>,
      \<lparr>Worker.WorkerID = ''w-2'', Worker.WorkerName = ''Suresh Singh'',
       Worker.Contact = Some ''9988776655'', Worker.DefaultDailyWage = 950\<rparr>]"

definition raisedStore :: Store where
  "raisedStore = (initialStore ''2023-11-02'')\<lparr>workers := raisedWorkers\<rparr>"

section \<open>Inputs for the examples of the creating operations\<close>

text \<open>A new-worker payload, and a master material list in which the unit value of
  \<open>m-3\<close> has changed.\<close>

definition newHandData :: WorkerData where
  "newHandData = \<lparr>WorkerData.WorkerName = ''Anil Rao'', WorkerData.Contact = None,
                   WorkerData.DefaultDailyWage = 700\<rparr>"

definition laterMaterials :: "Material list" where
  "laterMaterials =
     [\<lparr>Material.MaterialID = ''m-3'', Material.MaterialName = ''Bricks'',
       Material.Unit = ''nos'', Material.DefaultValue = 250\<rparr>]"

section \<open>Stores for the expense views\<close>

text \<open>The mock database after \<open>updateWorkerSalary\<close> stored an amount of 300 on the log
  \<open>swl-2\<close> and left it unpaid; and the mock database with worker logs and material logs
  of the month before, of the day before and of the same day a year before, each with an
  amount that is not 0.\<close>

definition unpaidStore :: Store where
  "unpaidStore =
     run [UpdateWorkerSalary \<lparr>logId = ''swl-2'', amount = 300, status = False\<rparr>]
       (initialStore ''2023-11-02'')"

definition monthOps :: "op list" where
  "monthOps =
     [AddDailyWorker ''unused'' ''log-a''
        \<lparr>DailyWorkerData.SiteID = ''s-1'', DailyWorkerData.Date = ''2023-10-26'',
         DailyWorkerData.WorkerID = Some ''w-3'', DailyWorkerData.WorkerName = ''Vijay Prasad'',
         newWorker = None\<rparr>,
      UpdateWorkerSalary \<lparr>logId = ''log-a'', amount = 400, status = True\<rparr>,
      AddDailyWorker ''unused'' ''log-b''
        \<lparr>DailyWorkerData.SiteID = ''s-2'', DailyWorkerData.Date = ''2022-11-02'',
         DailyWorkerData.WorkerID = Some ''w-2'', DailyWorkerData.WorkerName = ''Suresh Singh'',
         newWorker = None\<rparr>,
      UpdateWorkerSalary \<lparr>logId = ''log-b'', amount = 250, status = True\<rparr>,
      AddDailyWorker ''unused'' ''log-c''
        \<lparr>DailyWorkerData.SiteID = ''s-3'', DailyWorkerData.Date = ''2023-11-01'',
         DailyWorkerData.WorkerID = Some ''w-1'', DailyWorkerData.WorkerName = ''Ramesh Kumar'',
         newWorker = None\<rparr>,
      UpdateWorkerSalary \<lparr>logId = ''log-c'', amount = 60, status = True\<rparr>,
      AddDailyMaterial ''log-d''
        \<lparr>DailyMaterialData.SiteID = ''s-1'', DailyMaterialData.Date = ''2023-10-26'',
         DailyMaterialData.MaterialID = ''m-3'', DailyMaterialData.MaterialName = ''Bricks'',
         DailyMaterialData.Unit = ''nos'', DailyMaterialData.QuantityUsed = 10,
         DailyMaterialData.DefaultValue = 100\<rparr>,
      AddDailyMaterial ''log-e''
        \<lparr>DailyMaterialData.SiteID = ''s-2'', DailyMaterialData.Date = ''2023-11-01'',
         DailyMaterialData.MaterialID = ''m-2'', DailyMaterialData.MaterialName = ''Steel Rod (12mm)'',
         DailyMaterialData.Unit = ''kg'', DailyMaterialData.QuantityUsed = 4,
         DailyMaterialData.DefaultValue = 85\<rparr>,
      AddDailyMaterial ''log-f''
        \<lparr>DailyMaterialData.SiteID = ''s-2'', DailyMaterialData.Date = ''2022-11-02'',
         DailyMaterialData.MaterialID = ''m-1'', DailyMaterialData.MaterialName = ''Cement'',
         DailyMaterialData.Unit = ''bag'', DailyMaterialData.QuantityUsed = 2,
         DailyMaterialData.DefaultValue = 450\<rparr>]"

definition monthStore :: Store where
  "monthStore = run monthOps (initialStore ''2023-11-02'')"

section \<open>Auxiliary facts about lists\<close>

lemma find_None_image: "find (\<lambda>x. f x = k) xs = None \<longleftrightarrow> k \<notin> f ` set xs"
  by (induction xs) auto

lemma find_first_split:
  "k \<in> f ` set xs \<Longrightarrow>
   \<exists>pre x post. xs = pre @ x # post \<and> f x = k \<and> k \<notin> f ` set pre
     \<and> find (\<lambda>y. f y = k) xs = Some x
     \<and> (\<forall>g. update_first (\<lambda>y. f y = k) g xs = pre @ g x # post)"
proof (induction xs)
  case Nil
  then show ?case by simp
next
  case (Cons a xs)
  show ?case
  proof (cases "f a = k")
    case True
    then have "a # xs = [] @ a # xs \<and> f a = k \<and> k \<notin> f ` set []
      \<and> find (\<lambda>y. f y = k) (a # xs) = Some a
      \<and> (\<forall>g. update_first (\<lambda>y. f y = k) g (a # xs) = [] @ g a # xs)"
      by simp
    then show ?thesis by blast
  next
    case False
    with Cons.prems have "k \<in> f ` set xs" by auto
    from Cons.IH [OF this] obtain pre x post where
      h: "xs = pre @ x # post" "f x = k" "k \<notin> f ` set pre"
         "find (\<lambda>y. f y = k) xs = Some x"
         "\<forall>g. update_first (\<lambda>y. f y = k) g xs = pre @ g x # post"
      by blast
    from False h have "a # xs = (a # pre) @ x # post \<and> f x = k \<and> k \<notin> f ` set (a # pre)
      \<and> find (\<lambda>y. f y = k) (a # xs) = Some x
      \<and> (\<forall>g. update_first (\<lambda>y. f y = k) g (a # xs) = (a # pre) @ g x # post)"
      by auto
    then show ?thesis by blast
  qed
qed

lemma mset_insertBy: "mset (insertBy cmp x ys) = add_mset x (mset ys)"
  by (induction ys) auto

lemma mset_js_sort: "mset (js_sort cmp xs) = mset xs"
  by (induction xs) (auto simp: js_sort_def mset_insertBy)

lemma foldl_add_sum_list: "foldl (\<lambda>acc l. acc + f l) a xs = (a::rat) + sum_list (map f xs)"
  by (induction xs arbitrary: a) auto

lemma find_Some_image: "k \<in> f ` set xs \<Longrightarrow> \<exists>x. find (\<lambda>y. f y = k) xs = Some x"
  using find_first_split by fast

lemmas op_defs = addNewSite_def addNewWorker_def addNewMaterial_def addDailyLog_def
  addDailyWorker_def addDailyMaterial_def updateWorkerSalary_def updateSiteStatus_def uploadFile_def

section \<open>Update Site Status\<close>

text \<open>
  C6. For a site ID that no site of the store carries, \<open>updateSiteStatus\<close> throws
  \<open>Site not found\<close> (the spec's \<open>NotFound\<close>) and leaves the whole store, every
  collection of it, as it was. For a site ID that is present it returns
  \<open>{success: true}\<close> and the store differs from the old one only in the \<open>Status\<close>
  of the first site with that ID, which is now the given value.
\<close>

theorem updateSiteStatus_NotFound_or_set:
  "(siteId \<notin> Site.SiteID ` set (sites s) \<longrightarrow>
      updateSiteStatus siteId st s = (Inl (Error ''Site not found''), s))
   \<and> (siteId \<in> Site.SiteID ` set (sites s) \<longrightarrow>
      (\<exists>pre x post. sites s = pre @ x # post \<and> Site.SiteID x = siteId
         \<and> siteId \<notin> Site.SiteID ` set pre
         \<and> updateSiteStatus siteId st s =
             (Inr \<lparr>success = True\<rparr>, s\<lparr>sites := pre @ x\<lparr>Site.Status := st\<rparr> # post\<rparr>)))"
proof (intro conjI impI)
  assume "siteId \<notin> Site.SiteID ` set (sites s)"
  then have "find (\<lambda>x. Site.SiteID x = siteId) (sites s) = None"
    by (simp add: find_None_image)
  then show "updateSiteStatus siteId st s = (Inl (Error ''Site not found''), s)"
    by (simp add: updateSiteStatus_def)
next
  assume "siteId \<in> Site.SiteID ` set (sites s)"
  from find_first_split [OF this] obtain pre x post where
    h: "sites s = pre @ x # post" "Site.SiteID x = siteId" "siteId \<notin> Site.SiteID ` set pre"
       "find (\<lambda>y. Site.SiteID y = siteId) (sites s) = Some x"
       "\<forall>g. update_first (\<lambda>y. Site.SiteID y = siteId) g (sites s) = pre @ g x # post"
    by blast
  have "updateSiteStatus siteId st s =
          (Inr \<lparr>success = True\<rparr>, s\<lparr>sites := pre @ x\<lparr>Site.Status := st\<rparr> # post\<rparr>)"
    using h(4,5) by (simp add: updateSiteStatus_def)
  with h(1,2,3) show "\<exists>pre x post. sites s = pre @ x # post \<and> Site.SiteID x = siteId
         \<and> siteId \<notin> Site.SiteID ` set pre
         \<and> updateSiteStatus siteId st s =
             (Inr \<lparr>success = True\<rparr>, s\<lparr>sites := pre @ x\<lparr>Site.Status := st\<rparr> # post\<rparr>)"
    by blast
qed

theorem updateSiteStatus_NotFound_or_set_witness:
  "''s-9'' \<notin> Site.SiteID ` set (sites (initialStore ''2023-11-02''))
   \<and> updateSiteStatus ''s-9'' Offline (initialStore ''2023-11-02'')
       = (Inl (Error ''Site not found''), initialStore ''2023-11-02'')
   \<and> ''s-3'' \<in> Site.SiteID ` set (sites (initialStore ''2023-11-02''))
   \<and> (\<exists>pre x post. sites (initialStore ''2023-11-02'') = pre @ x # post \<and> Site.SiteID x = ''s-3''
         \<and> ''s-3'' \<notin> Site.SiteID ` set pre
         \<and> updateSiteStatus ''s-3'' Online (initialStore ''2023-11-02'') =
             (Inr \<lparr>success = True\<rparr>,
              (initialStore ''2023-11-02'')\<lparr>sites := pre @ x\<lparr>Site.Status := Online\<rparr> # post\<rparr>))"
proof -
  have a: "''s-9'' \<notin> Site.SiteID ` set (sites (initialStore ''2023-11-02''))"
    by (simp add: initialStore_def)
  have b: "''s-3'' \<in> Site.SiteID ` set (sites (initialStore ''2023-11-02''))"
    by (simp add: initialStore_def)
  from a b
    updateSiteStatus_NotFound_or_set [of "''s-9''" "initialStore ''2023-11-02''" Offline]
    updateSiteStatus_NotFound_or_set [of "''s-3''" "initialStore ''2023-11-02''" Online]
  show ?thesis by blast
qed

section \<open>Site Details View\<close>

text \<open>
  C1, as the code has it. For a site ID that some site of the store carries,
  \<open>getSiteDetails\<close> returns (and leaves the store alone) a view whose worker logs and
  material logs are that site's, rearranged, and whose expense breakdown has
  \<open>workerExpense\<close> the sum of \<open>SalaryPaid\<close> accumulated from 0 over the returned worker
  logs in their order, \<open>materialExpense\<close> the sum of \<open>TotalCost\<close> accumulated from 0
  over the returned material logs in their order, and \<open>totalExpenses\<close> the sum of the
  two. Every worker log of the site adds its stored \<open>SalaryPaid\<close>, whatever its
  \<open>PaidStatus\<close>.
\<close>

theorem getSiteDetails_expense_breakdown:
  assumes "siteId \<in> Site.SiteID ` set (sites s)"
  shows "\<exists>d. getSiteDetails parse siteId s = (Inr d, s)
     \<and> mset (workerLogs d) = mset (filter (\<lambda>l. SiteWorkerLog.SiteID l = siteId) (siteWorkerLogs s))
     \<and> mset (materialLogs d) = mset (filter (\<lambda>l. SiteMaterialLog.SiteID l = siteId) (siteMaterialLogs s))
     \<and> workerExpense (expenses d) = foldl (\<lambda>acc l. acc + SalaryPaid l) 0 (workerLogs d)
     \<and> materialExpense (expenses d) = foldl (\<lambda>acc l. acc + TotalCost l) 0 (materialLogs d)
     \<and> totalExpenses (expenses d) = workerExpense (expenses d) + materialExpense (expenses d)"
proof -
  from find_Some_image [OF assms] obtain x where
    fx: "find (\<lambda>y. Site.SiteID y = siteId) (sites s) = Some x" by blast
  define d where "d = (case fst (getSiteDetails parse siteId s) of Inr v \<Rightarrow> v)"
  have run: "getSiteDetails parse siteId s = (Inr d, s)"
    using fx by (simp add: getSiteDetails_def d_def Let_def)
  have wl: "mset (workerLogs d) =
      mset (filter (\<lambda>l. SiteWorkerLog.SiteID l = siteId) (siteWorkerLogs s))"
    using fx by (simp add: getSiteDetails_def d_def Let_def mset_js_sort)
  have ml: "mset (materialLogs d) =
      mset (filter (\<lambda>l. SiteMaterialLog.SiteID l = siteId) (siteMaterialLogs s))"
    using fx by (simp add: getSiteDetails_def d_def Let_def mset_js_sort)
  have we: "workerExpense (expenses d) = foldl (\<lambda>acc l. acc + SalaryPaid l) 0 (workerLogs d)"
    using fx by (simp add: getSiteDetails_def d_def Let_def)
  have me: "materialExpense (expenses d) = foldl (\<lambda>acc l. acc + TotalCost l) 0 (materialLogs d)"
    using fx by (simp add: getSiteDetails_def d_def Let_def)
  have te: "totalExpenses (expenses d) = workerExpense (expenses d) + materialExpense (expenses d)"
    using fx by (simp add: getSiteDetails_def d_def Let_def)
  from run wl ml we me te show ?thesis by blast
qed

theorem getSiteDetails_expense_breakdown_witness:
  "''site-A'' \<in> Site.SiteID ` set (sites scenarioStore)
   \<and> (\<exists>d. getSiteDetails exampleParse ''site-A'' scenarioStore = (Inr d, scenarioStore)
        \<and> map (\<lambda>l. (PaidStatus l, SalaryPaid l)) (workerLogs d) = [(True, 500), (False, 0)]
        \<and> map TotalCost (materialLogs d) = [1000]
        \<and> workerExpense (expenses d) = 500 \<and> materialExpense (expenses d) = 1000
        \<and> totalExpenses (expenses d) = 1500)"
proof -
  have a: "''site-A'' \<in> Site.SiteID ` set (sites scenarioStore)"
    by (simp add: scenarioStore_def scenarioOps_def run_def initialStore_def op_defs Let_def)
  have w: "map (\<lambda>l. (SiteWorkerLog.SiteID l, SiteWorkerLog.Date l, PaidStatus l, SalaryPaid l))
             (siteWorkerLogs scenarioStore) =
      [(''s-1'', ''2023-11-02'', True, 800), (''s-2'', ''2023-11-02'', False, 0),
       (''site-A'', ''2023-11-02'', True, 500), (''site-A'', ''2023-10-26'', False, 0)]"
    by (simp add: scenarioStore_def scenarioOps_def run_def initialStore_def op_defs Let_def)
  have m: "map (\<lambda>l. (SiteMaterialLog.SiteID l, SiteMaterialLog.Date l, TotalCost l))
             (siteMaterialLogs scenarioStore) =
      [(''s-1'', ''2023-11-02'', 22500), (''site-A'', ''2023-11-02'', 1000)]"
    by (simp add: scenarioStore_def scenarioOps_def run_def initialStore_def op_defs Let_def)
  from getSiteDetails_expense_breakdown [OF a, of exampleParse] obtain d where
    d: "getSiteDetails exampleParse ''site-A'' scenarioStore = (Inr d, scenarioStore)"
      and we: "workerExpense (expenses d) = foldl (\<lambda>acc l. acc + SalaryPaid l) 0 (workerLogs d)"
      and me: "materialExpense (expenses d) = foldl (\<lambda>acc l. acc + TotalCost l) 0 (materialLogs d)"
      and te: "totalExpenses (expenses d) = workerExpense (expenses d) + materialExpense (expenses d)"
    by blast
  from a have f: "find (\<lambda>x. Site.SiteID x = ''site-A'') (sites scenarioStore) \<noteq> None"
    by (simp add: find_None_image)
  have wl: "workerLogs d =
      js_sort (\<lambda>a b. byDateDesc exampleParse (SiteWorkerLog.Date a) (SiteWorkerLog.Date b))
        (filter (\<lambda>l. SiteWorkerLog.SiteID l = ''site-A'') (siteWorkerLogs scenarioStore))"
    using d f by (auto simp: getSiteDetails_def Let_def)
  have ml: "materialLogs d =
      js_sort (\<lambda>a b. byDateDesc exampleParse (SiteMaterialLog.Date a) (SiteMaterialLog.Date b))
        (filter (\<lambda>l. SiteMaterialLog.SiteID l = ''site-A'') (siteMaterialLogs scenarioStore))"
    using d f by (auto simp: getSiteDetails_def Let_def)
  have wv: "map (\<lambda>l. (PaidStatus l, SalaryPaid l)) (workerLogs d) = [(True, 500), (False, 0)]"
    unfolding wl
    by (simp add: scenarioStore_def scenarioOps_def run_def initialStore_def op_defs Let_def
        js_sort_def byDateDesc_def exampleParse_def)
  have mv: "map TotalCost (materialLogs d) = [1000]"
    unfolding ml
    by (simp add: scenarioStore_def scenarioOps_def run_def initialStore_def op_defs Let_def
        js_sort_def byDateDesc_def exampleParse_def)
  from wv have wv': "map SalaryPaid (workerLogs d) = [500, 0]"
    by (auto simp: map_eq_Cons_conv)
  from we have w5: "workerExpense (expenses d) = 500"
    by (simp add: foldl_add_sum_list wv')
  from me have m1: "materialExpense (expenses d) = 1000"
    by (simp add: foldl_add_sum_list mv)
  from te w5 m1 have t15: "totalExpenses (expenses d) = 1500" by simp
  from d wv mv w5 m1 t15 have "\<exists>d. getSiteDetails exampleParse ''site-A'' scenarioStore = (Inr d, scenarioStore)
        \<and> map (\<lambda>l. (PaidStatus l, SalaryPaid l)) (workerLogs d) = [(True, 500), (False, 0)]
        \<and> map TotalCost (materialLogs d) = [1000]
        \<and> workerExpense (expenses d) = 500 \<and> materialExpense (expenses d) = 1000
        \<and> totalExpenses (expenses d) = 1500"
    by (intro exI [of _ d] conjI)
  with a show ?thesis by (intro conjI)
qed

text \<open>
  C1 as the spec words it has unpaid entries contribute 0. After
  \<open>updateWorkerSalary({logId: 'swl-2', amount: 300, status: false})\<close> the only worker
  log of site \<open>s-2\<close> is unpaid and carries 300, and \<open>workerExpense\<close> of that site is
  300, not the sum in which unpaid entries count 0.
\<close>

theorem getSiteDetails_unpaid_counterexample:
  "map (\<lambda>l. (PaidStatus l, SalaryPaid l))
     (filter (\<lambda>l. SiteWorkerLog.SiteID l = ''s-2'') (siteWorkerLogs unpaidStore)) = [(False, 300)]
   \<and> (case fst (getSiteDetails exampleParse ''s-2'' unpaidStore) of
         Inl e \<Rightarrow> False
       | Inr d \<Rightarrow> workerExpense (expenses d) = 300
           \<and> workerExpense (expenses d) \<noteq>
               sum_list (map (\<lambda>l. if PaidStatus l then SalaryPaid l else 0)
                 (filter (\<lambda>l. SiteWorkerLog.SiteID l = ''s-2'') (siteWorkerLogs unpaidStore))))"
proof -
  have w: "siteWorkerLogs unpaidStore =
    [\<lparr>SiteWorkerLog.LogID = ''swl-1'', SiteWorkerLog.SiteID = ''s-1'',
          SiteWorkerLog.Date = ''2023-11-02'', SiteWorkerLog.WorkerID = ''w-1'',
          SiteWorkerLog.WorkerName = ''Ramesh Kumar'', SalaryPaid = 800, PaidStatus = True\<rparr>,
     \<lparr>SiteWorkerLog.LogID = ''swl-2'', SiteWorkerLog.SiteID = ''s-2'',
          SiteWorkerLog.Date = ''2023-11-02'', SiteWorkerLog.WorkerID = ''w-2'',
          SiteWorkerLog.WorkerName = ''Suresh Singh'', SalaryPaid = 300, PaidStatus = False\<rparr>]"
    by (simp add: unpaidStore_def run_def initialStore_def updateWorkerSalary_def)
  have f: "find (\<lambda>x. Site.SiteID x = ''s-2'') (sites unpaidStore) \<noteq> None"
    by (simp add: unpaidStore_def run_def initialStore_def updateWorkerSalary_def)
  show ?thesis
    using f by (auto simp: w getSiteDetails_def Let_def js_sort_def byDateDesc_def)
qed

section \<open>Dashboard Metrics View\<close>

lemma fold_addExpense:
  "fold (\<lambda>l. addExpense parse now (dt l) (v l)) xs acc =
     (foldl (\<lambda>a l. a + v l) (fst acc) (filter (\<lambda>l. dt l = todayDateString now) xs),
      foldl (\<lambda>a l. a + v l) (snd acc)
        (filter (\<lambda>l. case parse (dt l) of None \<Rightarrow> False
                     | Some p \<Rightarrow> getMonth p = nowMonth now \<and> getFullYear p = nowFullYear now) xs))"
proof (induction xs arbitrary: acc)
  case Nil
  then show ?case by simp
next
  case (Cons x xs)
  show ?case
    by (simp add: Cons.IH) (simp add: addExpense_def or_number_def inCurrentMonth_def Let_def)
qed

lemma length_filter_Offline:
  "length (filter (\<lambda>x. Site.Status x = Offline) xs) =
     length xs - length (filter (\<lambda>x. Site.Status x = Online) xs)"
proof (induction xs)
  case Nil
  then show ?case by simp
next
  case (Cons x xs)
  have "length (filter (\<lambda>x. Site.Status x = Online) xs) \<le> length xs" by simp
  with Cons show ?case by (cases "Site.Status x") (simp_all add: Suc_diff_le)
qed

text \<open>
  C5. For every store, date parser and current instant, \<open>getProfileDashboardData\<close>
  returns: \<open>onlineSites\<close>, the number of sites with status Online; \<open>offlineSites\<close>, the
  number with status Offline; \<open>todayWorkers\<close> and \<open>todayMaterials\<close>, the numbers of
  worker-log and material-log entries whose date string is today's; \<open>todayExpense\<close>, one
  running total from 0 of \<open>SalaryPaid\<close> over today's worker logs and then of
  \<open>TotalCost\<close> over today's material logs, in the store's order; \<open>monthExpense\<close>, the
  same running total over the logs whose date parses and whose parsed date has the month
  and the year of the current instant.
\<close>

theorem getProfileDashboardData_metrics:
  "onlineSites (getProfileDashboardData parse now s) =
     length (filter (\<lambda>x. Site.Status x = Online) (sites s))
   \<and> offlineSites (getProfileDashboardData parse now s) =
     length (filter (\<lambda>x. Site.Status x = Offline) (sites s))
   \<and> todayWorkers (getProfileDashboardData parse now s) =
     length (filter (\<lambda>l. SiteWorkerLog.Date l = todayDateString now) (siteWorkerLogs s))
   \<and> todayMaterials (getProfileDashboardData parse now s) =
     length (filter (\<lambda>l. SiteMaterialLog.Date l = todayDateString now) (siteMaterialLogs s))
   \<and> todayExpense (getProfileDashboardData parse now s) =
     foldl (\<lambda>a l. a + TotalCost l)
       (foldl (\<lambda>a l. a + SalaryPaid l) 0
          (filter (\<lambda>l. SiteWorkerLog.Date l = todayDateString now) (siteWorkerLogs s)))
       (filter (\<lambda>l. SiteMaterialLog.Date l = todayDateString now) (siteMaterialLogs s))
   \<and> monthExpense (getProfileDashboardData parse now s) =
     foldl (\<lambda>a l. a + TotalCost l)
       (foldl (\<lambda>a l. a + SalaryPaid l) 0
          (filter (\<lambda>l. case parse (SiteWorkerLog.Date l) of None \<Rightarrow> False
                       | Some p \<Rightarrow> getMonth p = nowMonth now \<and> getFullYear p = nowFullYear now)
             (siteWorkerLogs s)))
       (filter (\<lambda>l. case parse (SiteMaterialLog.Date l) of None \<Rightarrow> False
                    | Some p \<Rightarrow> getMonth p = nowMonth now \<and> getFullYear p = nowFullYear now)
          (siteMaterialLogs s))"
  by (simp add: getProfileDashboardData_def Let_def fold_addExpense length_filter_Offline)

theorem getProfileDashboardData_metrics_witness:
  "map (\<lambda>l. (SiteWorkerLog.Date l, SalaryPaid l)) (siteWorkerLogs monthStore) =
     [(''2023-11-02'', 800), (''2023-11-02'', 0), (''2023-10-26'', 400),
      (''2022-11-02'', 250), (''2023-11-01'', 60)]
   \<and> map (\<lambda>l. (SiteMaterialLog.Date l, TotalCost l)) (siteMaterialLogs monthStore) =
     [(''2023-11-02'', 22500), (''2023-10-26'', 1000), (''2023-11-01'', 340),
      (''2022-11-02'', 900)]
   \<and> map Site.Status (sites monthStore) = [Online, Online, Offline]
   \<and> getProfileDashboardData exampleParse
        \<lparr>todayDateString = ''2023-11-02'', nowMonth = 10, nowFullYear = 2023\<rparr> monthStore
     = \<lparr>onlineSites = 2, offlineSites = 1, todayWorkers = 2, todayMaterials = 1,
        todayExpense = 23300, monthExpense = 23700\<rparr>"
proof -
  have w: "map (\<lambda>l. (SiteWorkerLog.Date l, SalaryPaid l)) (siteWorkerLogs monthStore) =
     [(''2023-11-02'', 800), (''2023-11-02'', 0), (''2023-10-26'', 400),
      (''2022-11-02'', 250), (''2023-11-01'', 60)]"
    by (simp add: monthStore_def monthOps_def run_def initialStore_def op_defs Let_def)
  have m: "map (\<lambda>l. (SiteMaterialLog.Date l, TotalCost l)) (siteMaterialLogs monthStore) =
     [(''2023-11-02'', 22500), (''2023-10-26'', 1000), (''2023-11-01'', 340),
      (''2022-11-02'', 900)]"
    by (simp add: monthStore_def monthOps_def run_def initialStore_def op_defs Let_def)
  have s: "map Site.Status (sites monthStore) = [Online, Online, Offline]"
    by (simp add: monthStore_def monthOps_def run_def initialStore_def op_defs Let_def)
  have d: "getProfileDashboardData exampleParse
        \<lparr>todayDateString = ''2023-11-02'', nowMonth = 10, nowFullYear = 2023\<rparr> monthStore
     = \<lparr>onlineSites = 2, offlineSites = 1, todayWorkers = 2, todayMaterials = 1,
        todayExpense = 23300, monthExpense = 23700\<rparr>"
    using getProfileDashboardData_metrics [of exampleParse
        "\<lparr>todayDateString = ''2023-11-02'', nowMonth = 10, nowFullYear = 2023\<rparr>" monthStore]
    by (simp add: monthStore_def monthOps_def run_def initialStore_def op_defs Let_def
        exampleParse_def)
  from w m s d show ?thesis by (intro conjI)
qed

section \<open>Overall Material Log View\<close>

lemma set_js_sort: "set (js_sort cmp xs) = set xs"
  by (metis mset_js_sort set_mset_mset)

lemma enrichMaterialLog_unknown:
  "SiteMaterialLog.SiteID l \<notin> Site.SiteID ` set (sites s) \<Longrightarrow>
   enrichMaterialLog s l = SiteMaterialLog.extend l (OverallMaterialLog.fields ''Unknown Site'')"
  by (simp add: enrichMaterialLog_def find_None_image [THEN iffD2] or_string_def)

text \<open>
  C10. \<open>getOverallMaterialsLog\<close> returns every material-log entry of the store, each
  enriched, as often as the store holds it; an entry whose \<open>SiteID\<close> no site carries is
  among them with \<open>SiteName\<close> the literal \<open>Unknown Site\<close>, and the call does not fail.
\<close>

theorem getOverallMaterialsLog_unknown_site:
  "mset (getOverallMaterialsLog parse s) = image_mset (enrichMaterialLog s) (mset (siteMaterialLogs s))
   \<and> (\<forall>l\<in>set (siteMaterialLogs s).
        SiteMaterialLog.SiteID l \<notin> Site.SiteID ` set (sites s) \<longrightarrow>
          SiteMaterialLog.extend l (OverallMaterialLog.fields ''Unknown Site'')
            \<in> set (getOverallMaterialsLog parse s))"
proof (intro conjI ballI impI)
  show "mset (getOverallMaterialsLog parse s) =
      image_mset (enrichMaterialLog s) (mset (siteMaterialLogs s))"
    by (simp add: getOverallMaterialsLog_def mset_js_sort)
next
  fix l
  assume l: "l \<in> set (siteMaterialLogs s)"
    and u: "SiteMaterialLog.SiteID l \<notin> Site.SiteID ` set (sites s)"
  from l have "enrichMaterialLog s l \<in> set (getOverallMaterialsLog parse s)"
    by (simp add: getOverallMaterialsLog_def set_js_sort)
  with enrichMaterialLog_unknown [OF u]
  show "SiteMaterialLog.extend l (OverallMaterialLog.fields ''Unknown Site'')
            \<in> set (getOverallMaterialsLog parse s)"
    by simp
qed

theorem getOverallMaterialsLog_unknown_site_witness:
  "orphanLog \<in> set (siteMaterialLogs orphanStore)
   \<and> SiteMaterialLog.SiteID orphanLog \<notin> Site.SiteID ` set (sites orphanStore)
   \<and> SiteMaterialLog.extend orphanLog (OverallMaterialLog.fields ''Unknown Site'')
        \<in> set (getOverallMaterialsLog exampleParse orphanStore)"
proof -
  have a: "orphanLog \<in> set (siteMaterialLogs orphanStore)"
    by (simp add: orphanStore_def orphanEntry_def orphanLog_def addDailyMaterial_def
        initialStore_def Let_def)
  have b: "SiteMaterialLog.SiteID orphanLog \<notin> Site.SiteID ` set (sites orphanStore)"
    by (simp add: orphanStore_def orphanLog_def addDailyMaterial_def initialStore_def Let_def)
  from getOverallMaterialsLog_unknown_site [of exampleParse orphanStore] a b
  show ?thesis by blast
qed

section \<open>Today's Active Workers View\<close>

lemma truncate_enrichWorkerLog: "SiteWorkerLog.truncate (enrichWorkerLog s l) = l"
  by (simp add: enrichWorkerLog_def SiteWorkerLog.truncate_def SiteWorkerLog.extend_def Let_def)

lemma online_ids_iff:
  "k \<in> set (map Site.SiteID (filter (\<lambda>x. Site.Status x = Online) xs)) \<longleftrightarrow>
   (\<exists>x\<in>set xs. Site.SiteID x = k \<and> Site.Status x = Online)"
  by auto

lemma truncate_getTodayWorkers:
  "map SiteWorkerLog.truncate (getTodayWorkers today s) =
     filter (\<lambda>l. SiteWorkerLog.Date l = today
               \<and> (\<exists>x\<in>set (sites s). Site.SiteID x = SiteWorkerLog.SiteID l \<and> Site.Status x = Online))
       (siteWorkerLogs s)"
proof -
  have "map SiteWorkerLog.truncate (map (enrichWorkerLog s) xs) = xs" for xs
    by (induction xs) (simp_all add: truncate_enrichWorkerLog)
  then show ?thesis
    unfolding getTodayWorkers_def Let_def online_ids_iff by simp
qed

text \<open>
  C3. For every store and current date, the worker-log entries that \<open>getTodayWorkers\<close>
  returns (each with its two added fields dropped) are, in the store's order, exactly the
  entries whose date string is today's and whose site ID is that of an Online site. An
  entry all of whose sites are Offline is never among them, whatever its date.
\<close>

theorem getTodayWorkers_today_online_only:
  "map SiteWorkerLog.truncate (getTodayWorkers today s) =
     filter (\<lambda>l. SiteWorkerLog.Date l = today
               \<and> (\<exists>x\<in>set (sites s). Site.SiteID x = SiteWorkerLog.SiteID l \<and> Site.Status x = Online))
       (siteWorkerLogs s)
   \<and> (\<forall>l\<in>set (siteWorkerLogs s).
        (\<forall>x\<in>set (sites s). Site.SiteID x = SiteWorkerLog.SiteID l \<longrightarrow> Site.Status x = Offline) \<longrightarrow>
        l \<notin> SiteWorkerLog.truncate ` set (getTodayWorkers today s))"
proof (intro conjI ballI impI)
  show "map SiteWorkerLog.truncate (getTodayWorkers today s) =
     filter (\<lambda>l. SiteWorkerLog.Date l = today
               \<and> (\<exists>x\<in>set (sites s). Site.SiteID x = SiteWorkerLog.SiteID l \<and> Site.Status x = Online))
       (siteWorkerLogs s)"
    by (rule truncate_getTodayWorkers)
next
  fix l :: SiteWorkerLog
  assume off: "\<forall>x\<in>set (sites s). Site.SiteID x = SiteWorkerLog.SiteID l \<longrightarrow> Site.Status x = Offline"
  have "SiteWorkerLog.truncate ` set (getTodayWorkers today s) =
      set (map SiteWorkerLog.truncate (getTodayWorkers today s))"
    by simp
  also have "\<dots> = {l \<in> set (siteWorkerLogs s). SiteWorkerLog.Date l = today
               \<and> (\<exists>x\<in>set (sites s). Site.SiteID x = SiteWorkerLog.SiteID l \<and> Site.Status x = Online)}"
    unfolding truncate_getTodayWorkers by simp
  finally show "l \<notin> SiteWorkerLog.truncate ` set (getTodayWorkers today s)"
    using off by auto
qed

theorem getTodayWorkers_today_online_only_witness:
  "(siteWorkerLogs offlineStore) ! 1 \<in> set (siteWorkerLogs offlineStore)
   \<and> SiteWorkerLog.Date ((siteWorkerLogs offlineStore) ! 1) = ''2023-11-02''
   \<and> map Site.Status (filter (\<lambda>x. Site.SiteID x =
         SiteWorkerLog.SiteID ((siteWorkerLogs offlineStore) ! 1)) (sites offlineStore)) = [Offline]
   \<and> (siteWorkerLogs offlineStore) ! 1
         \<notin> SiteWorkerLog.truncate ` set (getTodayWorkers ''2023-11-02'' offlineStore)
   \<and> map SiteWorkerLog.LogID (getTodayWorkers ''2023-11-02'' offlineStore) = [''swl-1'']"
proof -
  have a: "(siteWorkerLogs offlineStore) ! 1 \<in> set (siteWorkerLogs offlineStore)"
    by (simp add: offlineStore_def run_def updateSiteStatus_def initialStore_def)
  have b: "\<forall>x\<in>set (sites offlineStore).
         Site.SiteID x = SiteWorkerLog.SiteID ((siteWorkerLogs offlineStore) ! 1) \<longrightarrow>
         Site.Status x = Offline"
    by (simp add: offlineStore_def run_def updateSiteStatus_def initialStore_def)
  have b': "map Site.Status (filter (\<lambda>x. Site.SiteID x =
         SiteWorkerLog.SiteID ((siteWorkerLogs offlineStore) ! 1)) (sites offlineStore)) = [Offline]"
    by (simp add: offlineStore_def run_def updateSiteStatus_def initialStore_def)
  have c: "SiteWorkerLog.Date ((siteWorkerLogs offlineStore) ! 1) = ''2023-11-02''"
    by (simp add: offlineStore_def run_def updateSiteStatus_def initialStore_def)
  have d: "map SiteWorkerLog.LogID
      (filter (\<lambda>l. SiteWorkerLog.Date l = ''2023-11-02''
               \<and> (\<exists>x\<in>set (sites offlineStore).
                     Site.SiteID x = SiteWorkerLog.SiteID l \<and> Site.Status x = Online))
       (siteWorkerLogs offlineStore)) = [''swl-1'']"
    by (simp add: offlineStore_def run_def updateSiteStatus_def initialStore_def)
  have e: "map SiteWorkerLog.LogID (map SiteWorkerLog.truncate ts) = map SiteWorkerLog.LogID ts"
    for ts :: "TodayWorker list"
    by (simp add: SiteWorkerLog.truncate_def)
  from getTodayWorkers_today_online_only [of "''2023-11-02''" offlineStore]
  have f: "map SiteWorkerLog.truncate (getTodayWorkers ''2023-11-02'' offlineStore) =
     filter (\<lambda>l. SiteWorkerLog.Date l = ''2023-11-02''
               \<and> (\<exists>x\<in>set (sites offlineStore).
                     Site.SiteID x = SiteWorkerLog.SiteID l \<and> Site.Status x = Online))
       (siteWorkerLogs offlineStore)"
    and g: "\<forall>l\<in>set (siteWorkerLogs offlineStore).
        (\<forall>x\<in>set (sites offlineStore).
            Site.SiteID x = SiteWorkerLog.SiteID l \<longrightarrow> Site.Status x = Offline) \<longrightarrow>
        l \<notin> SiteWorkerLog.truncate ` set (getTodayWorkers ''2023-11-02'' offlineStore)"
    by (rule conjunct1, rule conjunct2)
  from g [THEN bspec, OF a, THEN mp, OF b]
  have h: "(siteWorkerLogs offlineStore) ! 1
         \<notin> SiteWorkerLog.truncate ` set (getTodayWorkers ''2023-11-02'' offlineStore)" .
  from e [of "getTodayWorkers ''2023-11-02'' offlineStore"] f d
  have i: "map SiteWorkerLog.LogID (getTodayWorkers ''2023-11-02'' offlineStore) = [''swl-1'']"
    by (simp only:)
  from a c b' h i show ?thesis by (intro conjI)
qed

text \<open>
  C4. Whatever the master worker list \<open>ws\<close> is when \<open>getTodayWorkers\<close> is called: the
  log part of every returned entry, \<open>WorkerName\<close> included, is an entry of the worker
  logs as stored and does not depend on \<open>ws\<close>; and when the lookup of the entry's
  \<open>WorkerID\<close> in \<open>ws\<close> finds a worker, the entry's \<open>DefaultDailyWage\<close> is that
  worker's default wage in \<open>ws\<close>.
\<close>

theorem getTodayWorkers_live_wage:
  "map SiteWorkerLog.truncate (getTodayWorkers today (s\<lparr>workers := ws\<rparr>)) =
     map SiteWorkerLog.truncate (getTodayWorkers today s)
   \<and> (\<forall>t\<in>set (getTodayWorkers today (s\<lparr>workers := ws\<rparr>)).
        SiteWorkerLog.truncate t \<in> set (siteWorkerLogs s)
        \<and> (\<forall>w. find (\<lambda>w. Worker.WorkerID w = SiteWorkerLog.WorkerID t) ws = Some w \<longrightarrow>
              TodayWorker.DefaultDailyWage t = Worker.DefaultDailyWage w))"
proof (intro conjI ballI allI impI)
  show "map SiteWorkerLog.truncate (getTodayWorkers today (s\<lparr>workers := ws\<rparr>)) =
     map SiteWorkerLog.truncate (getTodayWorkers today s)"
    by (simp add: truncate_getTodayWorkers)
next
  fix t
  assume "t \<in> set (getTodayWorkers today (s\<lparr>workers := ws\<rparr>))"
  then obtain l where l: "l \<in> set (siteWorkerLogs s)" and t: "t = enrichWorkerLog (s\<lparr>workers := ws\<rparr>) l"
    by (auto simp: getTodayWorkers_def Let_def)
  show "SiteWorkerLog.truncate t \<in> set (siteWorkerLogs s)"
    using l t by (simp add: truncate_enrichWorkerLog)
  fix w
  assume "find (\<lambda>w. Worker.WorkerID w = SiteWorkerLog.WorkerID t) ws = Some w"
  then show "TodayWorker.DefaultDailyWage t = Worker.DefaultDailyWage w"
    using t by (simp add: enrichWorkerLog_def Let_def SiteWorkerLog.extend_def
        TodayWorker.fields_def or_number_def)
qed

lemma raised_out: "getTodayWorkers ''2023-11-02'' raisedStore =
   [\<lparr>SiteWorkerLog.LogID = ''swl-1'', SiteWorkerLog.SiteID = ''s-1'',
          SiteWorkerLog.Date = ''2023-11-02'', SiteWorkerLog.WorkerID = ''w-1'',
          SiteWorkerLog.WorkerName = ''Ramesh Kumar'', SalaryPaid = 800, PaidStatus = True,
          TodayWorker.SiteName = ''Greenwood Villa'', TodayWorker.DefaultDailyWage = 900\<rparr>,
    \<lparr>SiteWorkerLog.LogID = ''swl-2'', SiteWorkerLog.SiteID = ''s-2'',
          SiteWorkerLog.Date = ''2023-11-02'', SiteWorkerLog.WorkerID = ''w-2'',
          SiteWorkerLog.WorkerName = ''Suresh Singh'', SalaryPaid = 0, PaidStatus = False,
          TodayWorker.SiteName = ''Prestige Apartments'', TodayWorker.DefaultDailyWage = 950\<rparr>]"
  by (simp add: raisedStore_def raisedWorkers_def initialStore_def getTodayWorkers_def
      enrichWorkerLog_def Let_def or_string_def or_number_def SiteWorkerLog.extend_def
      TodayWorker.fields_def)

theorem getTodayWorkers_live_wage_witness:
  "getTodayWorkers ''2023-11-02'' ((initialStore ''2023-11-02'')\<lparr>workers := raisedWorkers\<rparr>) ! 0
     \<in> set (getTodayWorkers ''2023-11-02'' ((initialStore ''2023-11-02'')\<lparr>workers := raisedWorkers\<rparr>))
   \<and> find (\<lambda>w. Worker.WorkerID w = SiteWorkerLog.WorkerID
         (getTodayWorkers ''2023-11-02'' ((initialStore ''2023-11-02'')\<lparr>workers := raisedWorkers\<rparr>) ! 0))
         raisedWorkers = Some (raisedWorkers ! 0)
   \<and> Worker.DefaultDailyWage (raisedWorkers ! 0) = 900
   \<and> Worker.DefaultDailyWage (workers (initialStore ''2023-11-02'') ! 0) = 800
   \<and> TodayWorker.DefaultDailyWage
        (getTodayWorkers ''2023-11-02'' ((initialStore ''2023-11-02'')\<lparr>workers := raisedWorkers\<rparr>) ! 0)
        = 900
   \<and> SiteWorkerLog.truncate
        (getTodayWorkers ''2023-11-02'' ((initialStore ''2023-11-02'')\<lparr>workers := raisedWorkers\<rparr>) ! 0)
        \<in> set (siteWorkerLogs (initialStore ''2023-11-02''))
   \<and> SiteWorkerLog.WorkerName
        (getTodayWorkers ''2023-11-02'' ((initialStore ''2023-11-02'')\<lparr>workers := raisedWorkers\<rparr>) ! 0)
        = ''Ramesh Kumar''
   \<and> Worker.WorkerName (raisedWorkers ! 0) = ''R. Kumar''"
proof -
  let ?out = "getTodayWorkers ''2023-11-02'' ((initialStore ''2023-11-02'')\<lparr>workers := raisedWorkers\<rparr>)"
  have a: "?out ! 0 \<in> set ?out"
    using raised_out by (simp add: raisedStore_def)
  have b: "find (\<lambda>w. Worker.WorkerID w = SiteWorkerLog.WorkerID (?out ! 0)) raisedWorkers
      = Some (raisedWorkers ! 0)"
    using raised_out by (simp add: raisedStore_def) (simp add: raisedWorkers_def)
  have c: "Worker.DefaultDailyWage (raisedWorkers ! 0) = 900"
     "Worker.WorkerName (raisedWorkers ! 0) = ''R. Kumar''"
     "Worker.DefaultDailyWage (workers (initialStore ''2023-11-02'') ! 0) = 800"
    by (simp_all add: raisedWorkers_def initialStore_def)
  have d: "SiteWorkerLog.WorkerName (?out ! 0) = ''Ramesh Kumar''"
    using raised_out by (simp add: raisedStore_def)
  have "\<forall>t\<in>set ?out.
        SiteWorkerLog.truncate t \<in> set (siteWorkerLogs (initialStore ''2023-11-02''))
        \<and> (\<forall>w. find (\<lambda>w. Worker.WorkerID w = SiteWorkerLog.WorkerID t) raisedWorkers = Some w \<longrightarrow>
              TodayWorker.DefaultDailyWage t = Worker.DefaultDailyWage w)"
    using getTodayWorkers_live_wage [where today = "''2023-11-02''"
      and s = "initialStore ''2023-11-02''" and ws = raisedWorkers]
    by (rule conjunct2)
  from bspec [OF this a]
  have e: "SiteWorkerLog.truncate (?out ! 0) \<in> set (siteWorkerLogs (initialStore ''2023-11-02''))"
    and f: "\<forall>w. find (\<lambda>w. Worker.WorkerID w = SiteWorkerLog.WorkerID (?out ! 0)) raisedWorkers = Some w \<longrightarrow>
              TodayWorker.DefaultDailyWage (?out ! 0) = Worker.DefaultDailyWage w"
    by (rule conjunct1, rule conjunct2)
  from f [THEN spec, THEN mp, OF b]
  have "TodayWorker.DefaultDailyWage (?out ! 0) = Worker.DefaultDailyWage (raisedWorkers ! 0)" .
  with c(1) have g: "TodayWorker.DefaultDailyWage (?out ! 0) = 900"
    by (simp only:)
  from a b c(1) c(3) g e d c(2) show ?thesis
    by (intro conjI)
qed

section \<open>Create Daily Material Entry\<close>

lemma apply_op_siteMaterialLogs:
  "\<exists>rest. siteMaterialLogs (apply_op x s) = siteMaterialLogs s @ rest"
proof (cases x)
  case (AddDailyWorker uw ul d)
  then show ?thesis
    by (simp add: addDailyWorker_def addNewWorker_def Let_def split: option.splits)
next
  case (UpdateWorkerSalary upd)
  then show ?thesis by (simp add: updateWorkerSalary_def split: option.splits)
next
  case (UpdateSiteStatus i st)
  then show ?thesis by (simp add: updateSiteStatus_def split: option.splits)
next
  case (UploadFile uf ui today fd i ft ds)
  then show ?thesis by (simp add: uploadFile_def Let_def split: option.splits)
qed (simp_all add: addNewSite_def addNewWorker_def addNewMaterial_def addDailyLog_def
      addDailyMaterial_def Let_def)

lemma run_siteMaterialLogs:
  "\<exists>rest. siteMaterialLogs (run ops s) = siteMaterialLogs s @ rest"
proof (induction ops arbitrary: s)
  case Nil
  then show ?case by (simp add: run_def)
next
  case (Cons x ops)
  from apply_op_siteMaterialLogs obtain r1 where
    r1: "siteMaterialLogs (apply_op x s) = siteMaterialLogs s @ r1" by blast
  from Cons.IH [of "apply_op x s"] obtain r2 where
    "siteMaterialLogs (run ops (apply_op x s)) = siteMaterialLogs (apply_op x s) @ r2" by blast
  with r1 have "siteMaterialLogs (run (x # ops) s) = siteMaterialLogs s @ (r1 @ r2)"
    by (simp add: run_def)
  then show ?case by blast
qed

text \<open>
  C2. \<open>addDailyMaterial\<close> with quantity \<open>Q\<close> and unit value \<open>V\<close> succeeds and appends
  one entry whose \<open>TotalCost\<close> is \<open>Q * V\<close>. Whatever operations follow, and whatever the
  master material list is replaced with on the way (the module itself has no operation
  that changes a material), the material logs still begin with the old entries followed
  by that entry, unchanged: later operations only append.
\<close>

theorem addDailyMaterial_TotalCost_fixed:
  "\<exists>newLog. addDailyMaterial u d s =
        (Inr newLog, s\<lparr>siteMaterialLogs := siteMaterialLogs s @ [newLog]\<rparr>)
     \<and> TotalCost newLog = DailyMaterialData.QuantityUsed d * DailyMaterialData.DefaultValue d
     \<and> (\<forall>ops1 ms ops2. \<exists>rest.
           siteMaterialLogs
             (run ops2 ((run ops1 (snd (addDailyMaterial u d s)))\<lparr>materials := ms\<rparr>))
           = siteMaterialLogs s @ [newLog] @ rest)"
proof -
  define newLog where "newLog = (case fst (addDailyMaterial u d s) of Inr v \<Rightarrow> v)"
  have a: "addDailyMaterial u d s =
        (Inr newLog, s\<lparr>siteMaterialLogs := siteMaterialLogs s @ [newLog]\<rparr>)"
    by (simp add: addDailyMaterial_def newLog_def Let_def)
  have b: "TotalCost newLog = DailyMaterialData.QuantityUsed d * DailyMaterialData.DefaultValue d"
    by (simp add: addDailyMaterial_def newLog_def Let_def)
  have c: "\<exists>rest. siteMaterialLogs
             (run ops2 ((run ops1 (snd (addDailyMaterial u d s)))\<lparr>materials := ms\<rparr>))
           = siteMaterialLogs s @ [newLog] @ rest" for ops1 ms ops2
  proof -
    let ?s1 = "snd (addDailyMaterial u d s)"
    from run_siteMaterialLogs obtain r1 where
      r1: "siteMaterialLogs (run ops1 ?s1) = siteMaterialLogs ?s1 @ r1" by blast
    from run_siteMaterialLogs [of ops2 "(run ops1 ?s1)\<lparr>materials := ms\<rparr>"] obtain r2 where
      r2: "siteMaterialLogs (run ops2 ((run ops1 ?s1)\<lparr>materials := ms\<rparr>))
             = siteMaterialLogs (run ops1 ?s1) @ r2" by auto
    from a have "siteMaterialLogs ?s1 = siteMaterialLogs s @ [newLog]" by simp
    with r1 r2 have "siteMaterialLogs (run ops2 ((run ops1 ?s1)\<lparr>materials := ms\<rparr>))
             = siteMaterialLogs s @ [newLog] @ (r1 @ r2)" by simp
    then show ?thesis by blast
  qed
  from a b c show ?thesis by blast
qed

theorem addDailyMaterial_TotalCost_fixed_witness:
  "\<exists>newLog rest.
     fst (addDailyMaterial ''log-x'' orphanEntry (initialStore ''2023-11-02'')) = Inr newLog
     \<and> TotalCost newLog = 340
     \<and> siteMaterialLogs (run scenarioOps
          ((run [AddNewMaterial ''m-9'' \<lparr>MaterialData.MaterialName = ''Sand'',
                   MaterialData.Unit = ''ton'', MaterialData.DefaultValue = 1200\<rparr>]
              (snd (addDailyMaterial ''log-x'' orphanEntry (initialStore ''2023-11-02''))))
           \<lparr>materials := laterMaterials\<rparr>))
        = siteMaterialLogs (initialStore ''2023-11-02'') @ [newLog] @ rest"
proof -
  from addDailyMaterial_TotalCost_fixed [of "''log-x''" orphanEntry "initialStore ''2023-11-02''"]
  obtain newLog where
    a: "addDailyMaterial ''log-x'' orphanEntry (initialStore ''2023-11-02'') =
        (Inr newLog, (initialStore ''2023-11-02'')
           \<lparr>siteMaterialLogs := siteMaterialLogs (initialStore ''2023-11-02'') @ [newLog]\<rparr>)"
    and b: "TotalCost newLog =
        DailyMaterialData.QuantityUsed orphanEntry * DailyMaterialData.DefaultValue orphanEntry"
    and c: "\<forall>ops1 ms ops2. \<exists>rest.
           siteMaterialLogs
             (run ops2 ((run ops1 (snd (addDailyMaterial ''log-x'' orphanEntry
                 (initialStore ''2023-11-02''))))\<lparr>materials := ms\<rparr>))
           = siteMaterialLogs (initialStore ''2023-11-02'') @ [newLog] @ rest"
    by blast
  from a have a': "fst (addDailyMaterial ''log-x'' orphanEntry (initialStore ''2023-11-02'')) = Inr newLog"
    by simp
  from b have b': "TotalCost newLog = 340" by (simp add: orphanEntry_def)
  from c [THEN spec, THEN spec, THEN spec] a' b' show ?thesis by blast
qed

section \<open>Create Daily Log\<close>




section \<open>Create Daily Worker Entry\<close>

text \<open>
  C7. Without a new-worker payload and with a worker ID that is \<open>null\<close> (or empty),
  \<open>addDailyWorker\<close> throws \<open>Worker ID is missing\<close> (the spec's
  \<open>MissingWorkerReference\<close>) and the store is as before, so the workers and the worker
  logs keep their length. With a new-worker payload (a UUID is never the empty string)
  \<open>addNewWorker\<close> registers a worker with the payload's name, contact and default wage
  under the drawn ID, and the call returns that worker and the new log entry and appends
  both: the worker to the workers, and to the worker logs the entry with the given site,
  date and worker name, that worker's ID, \<open>SalaryPaid = 0\<close> and \<open>PaidStatus = false\<close>.
\<close>

theorem addDailyWorker_reference:
  "(newWorker d = None \<and> (DailyWorkerData.WorkerID d = None \<or> DailyWorkerData.WorkerID d = Some []) \<longrightarrow>
      addDailyWorker uWorker uLog d s = (Inl (Error ''Worker ID is missing''), s)
      \<and> length (workers (snd (addDailyWorker uWorker uLog d s))) = length (workers s)
      \<and> length (siteWorkerLogs (snd (addDailyWorker uWorker uLog d s))) = length (siteWorkerLogs s))
   \<and> (\<forall>nw. newWorker d = Some nw \<and> uWorker \<noteq> [] \<longrightarrow>
        addNewWorker uWorker nw s =
          (Inr \<lparr>Worker.WorkerID = uWorker, Worker.WorkerName = WorkerData.WorkerName nw,
                 Worker.Contact = WorkerData.Contact nw,
                 Worker.DefaultDailyWage = WorkerData.DefaultDailyWage nw\<rparr>,
           s\<lparr>workers := workers s @
                [\<lparr>Worker.WorkerID = uWorker, Worker.WorkerName = WorkerData.WorkerName nw,
                  Worker.Contact = WorkerData.Contact nw,
                  Worker.DefaultDailyWage = WorkerData.DefaultDailyWage nw\<rparr>]\<rparr>)
        \<and> addDailyWorker uWorker uLog d s =
          (Inr (\<lparr>SiteWorkerLog.LogID = uLog,
                  SiteWorkerLog.SiteID = DailyWorkerData.SiteID d,
                  SiteWorkerLog.Date = DailyWorkerData.Date d,
                  SiteWorkerLog.WorkerID = uWorker,
                  SiteWorkerLog.WorkerName = DailyWorkerData.WorkerName d,
                  SalaryPaid = 0, PaidStatus = False\<rparr>,
                Some \<lparr>Worker.WorkerID = uWorker, Worker.WorkerName = WorkerData.WorkerName nw,
                      Worker.Contact = WorkerData.Contact nw,
                      Worker.DefaultDailyWage = WorkerData.DefaultDailyWage nw\<rparr>),
           s\<lparr>workers := workers s @
                [\<lparr>Worker.WorkerID = uWorker, Worker.WorkerName = WorkerData.WorkerName nw,
                  Worker.Contact = WorkerData.Contact nw,
                  Worker.DefaultDailyWage = WorkerData.DefaultDailyWage nw\<rparr>],
              siteWorkerLogs := siteWorkerLogs s @
                [\<lparr>SiteWorkerLog.LogID = uLog,
                  SiteWorkerLog.SiteID = DailyWorkerData.SiteID d,
                  SiteWorkerLog.Date = DailyWorkerData.Date d,
                  SiteWorkerLog.WorkerID = uWorker,
                  SiteWorkerLog.WorkerName = DailyWorkerData.WorkerName d,
                  SalaryPaid = 0, PaidStatus = False\<rparr>]\<rparr>))"
  by (auto simp: addDailyWorker_def addNewWorker_def Let_def)

theorem addDailyWorker_reference_witness:
  "addDailyWorker ''u-w'' ''u-l''
        \<lparr>DailyWorkerData.SiteID = ''s-1'', DailyWorkerData.Date = ''2023-11-02'',
          DailyWorkerData.WorkerID = None, DailyWorkerData.WorkerName = ''Anil Rao'',
          newWorker = None\<rparr> (initialStore ''2023-11-02'')
     = (Inl (Error ''Worker ID is missing''), initialStore ''2023-11-02'')
   \<and> ''u-w'' \<noteq> []
   \<and> addDailyWorker ''u-w'' ''u-l''
         \<lparr>DailyWorkerData.SiteID = ''s-1'', DailyWorkerData.Date = ''2023-11-02'',
           DailyWorkerData.WorkerID = Some ''w-1'', DailyWorkerData.WorkerName = ''Anil Rao'',
           newWorker = Some newHandData\<rparr> (initialStore ''2023-11-02'')
       = (Inr (\<lparr>SiteWorkerLog.LogID = ''u-l'', SiteWorkerLog.SiteID = ''s-1'',
                 SiteWorkerLog.Date = ''2023-11-02'', SiteWorkerLog.WorkerID = ''u-w'',
                 SiteWorkerLog.WorkerName = ''Anil Rao'', SalaryPaid = 0, PaidStatus = False\<rparr>,
               Some \<lparr>Worker.WorkerID = ''u-w'', Worker.WorkerName = ''Anil Rao'',
                     Worker.Contact = None, Worker.DefaultDailyWage = 700\<rparr>),
          (initialStore ''2023-11-02'')
            \<lparr>workers := workers (initialStore ''2023-11-02'') @
               [\<lparr>Worker.WorkerID = ''u-w'', Worker.WorkerName = ''Anil Rao'',
                 Worker.Contact = None, Worker.DefaultDailyWage = 700\<rparr>],
             siteWorkerLogs := siteWorkerLogs (initialStore ''2023-11-02'') @
               [\<lparr>SiteWorkerLog.LogID = ''u-l'', SiteWorkerLog.SiteID = ''s-1'',
                 SiteWorkerLog.Date = ''2023-11-02'', SiteWorkerLog.WorkerID = ''u-w'',
                 SiteWorkerLog.WorkerName = ''Anil Rao'', SalaryPaid = 0,
                 PaidStatus = False\<rparr>]\<rparr>)"
proof -
  let ?none = "\<lparr>DailyWorkerData.SiteID = ''s-1'', DailyWorkerData.Date = ''2023-11-02'',
          DailyWorkerData.WorkerID = None, DailyWorkerData.WorkerName = ''Anil Rao'',
          newWorker = None\<rparr>"
  let ?new = "\<lparr>DailyWorkerData.SiteID = ''s-1'', DailyWorkerData.Date = ''2023-11-02'',
                DailyWorkerData.WorkerID = Some ''w-1'', DailyWorkerData.WorkerName = ''Anil Rao'',
                newWorker = Some newHandData\<rparr>"
  have h1: "newWorker ?none = None \<and>
      (DailyWorkerData.WorkerID ?none = None \<or> DailyWorkerData.WorkerID ?none = Some [])"
    by simp
  have h2: "newWorker ?new = Some newHandData \<and> ''u-w'' \<noteq> []"
    by simp
  note t1 = addDailyWorker_reference [of ?none "''u-w''" "''u-l''" "initialStore ''2023-11-02''",
      THEN conjunct1, THEN mp, OF h1, THEN conjunct1]
  note t2 = addDailyWorker_reference [of ?new "''u-w''" "''u-l''" "initialStore ''2023-11-02''",
      THEN conjunct2, THEN spec, THEN mp, OF h2, THEN conjunct2]
  have n: "''u-w'' \<noteq> []" by simp
  from t2 have t2': "addDailyWorker ''u-w'' ''u-l'' ?new (initialStore ''2023-11-02'')
       = (Inr (\<lparr>SiteWorkerLog.LogID = ''u-l'', SiteWorkerLog.SiteID = ''s-1'',
                 SiteWorkerLog.Date = ''2023-11-02'', SiteWorkerLog.WorkerID = ''u-w'',
                 SiteWorkerLog.WorkerName = ''Anil Rao'', SalaryPaid = 0, PaidStatus = False\<rparr>,
               Some \<lparr>Worker.WorkerID = ''u-w'', Worker.WorkerName = ''Anil Rao'',
                     Worker.Contact = None, Worker.DefaultDailyWage = 700\<rparr>),
          (initialStore ''2023-11-02'')
            \<lparr>workers := workers (initialStore ''2023-11-02'') @
               [\<lparr>Worker.WorkerID = ''u-w'', Worker.WorkerName = ''Anil Rao'',
                 Worker.Contact = None, Worker.DefaultDailyWage = 700\<rparr>],
             siteWorkerLogs := siteWorkerLogs (initialStore ''2023-11-02'') @
               [\<lparr>SiteWorkerLog.LogID = ''u-l'', SiteWorkerLog.SiteID = ''s-1'',
                 SiteWorkerLog.Date = ''2023-11-02'', SiteWorkerLog.WorkerID = ''u-w'',
                 SiteWorkerLog.WorkerName = ''Anil Rao'', SalaryPaid = 0,
                 PaidStatus = False\<rparr>]\<rparr>)"
    by (simp add: newHandData_def)
  from t1 n t2' show ?thesis by (intro conjI)
qed

section \<open>Attach File\<close>

text \<open>
  C9. For a site that exists and a file category other than \<open>agreement\<close>, \<open>plan\<close> and
  \<open>gallery\<close>, \<open>uploadFile\<close> returns \<open>{success: true}\<close> and the store is exactly as
  before: no field of a site is written and no gallery entry is appended.
\<close>

theorem uploadFile_unrecognised_category:
  assumes "siteId \<in> Site.SiteID ` set (sites s)"
    and "fileType \<notin> {''agreement'', ''plan'', ''gallery''}"
  shows "uploadFile uFile uImage today fileData siteId fileType description s
           = (Inr \<lparr>success = True\<rparr>, s)"
proof -
  from find_Some_image [OF assms(1)] obtain x where
    "find (\<lambda>y. Site.SiteID y = siteId) (sites s) = Some x" by blast
  with assms(2) show ?thesis
    by (simp add: uploadFile_def Let_def)
qed

theorem uploadFile_unrecognised_category_witness:
  "''s-1'' \<in> Site.SiteID ` set (sites (initialStore ''2023-11-02''))
   \<and> ''invoice'' \<notin> {''agreement'', ''plan'', ''gallery''}
   \<and> uploadFile ''u-1'' ''u-2'' ''2023-11-02'' \<lparr>name = ''mock.jpg''\<rparr> ''s-1'' ''invoice''
        ''Mock Description'' (initialStore ''2023-11-02'')
        = (Inr \<lparr>success = True\<rparr>, initialStore ''2023-11-02'')"
proof -
  have a: "''s-1'' \<in> Site.SiteID ` set (sites (initialStore ''2023-11-02''))"
    by (simp add: initialStore_def)
  have b: "''invoice'' \<notin> {''agreement'', ''plan'', ''gallery''}" by simp
  from a b uploadFile_unrecognised_category [OF a b] show ?thesis by blast
qed

end
